theory Spec2Isabelle
  imports Main "HOL-Library.Word"
begin

section \<open>The TLS 1.3 key scheduler of fizz (fizz/protocol/KeyScheduler.cpp)\<close>

subsection \<open>Data model\<close>

text \<open>
  Byte buffers (\<^verbatim>\<open>folly::ByteRange\<close>, \<^verbatim>\<open>std::vector<uint8_t>\<close> and the content of a
  \<^verbatim>\<open>folly::IOBuf\<close>) are lists of 8-bit words.
\<close>

type_synonym bytes = "8 word list"

text \<open>
  The collaborator behind \<^verbatim>\<open>deriver_\<close> (class \<^verbatim>\<open>KeyDerivation\<close>). Its implementation is
  not part of the scheduler, so every operation takes it as the parameter \<open>d\<close>: five
  functions, fixed for the lifetime of the scheduler. A \<^verbatim>\<open>StringPiece\<close> label is a
  \<open>string\<close>; the \<^verbatim>\<open>Buf\<close> that \<^verbatim>\<open>expandLabel\<close> takes and returns is its byte content.
\<close>

record KeyDerivation =
  hashLength :: nat
  hkdfExtract :: "bytes \<Rightarrow> bytes \<Rightarrow> bytes"
  deriveSecret :: "bytes \<Rightarrow> string \<Rightarrow> bytes \<Rightarrow> bytes"
  expandLabel :: "bytes \<Rightarrow> string \<Rightarrow> bytes \<Rightarrow> nat \<Rightarrow> bytes"
  blankHash :: bytes

text \<open>The label constants at the head of the file.\<close>

definition kTrafficKey :: string where "kTrafficKey = ''key''"
definition kTrafficIv :: string where "kTrafficIv = ''iv''"
definition kExternalPskBinder :: string where "kExternalPskBinder = ''ext binder''"
definition kResumptionPskBinder :: string where "kResumptionPskBinder = ''res binder''"
definition kClientEarlyTraffic :: string where "kClientEarlyTraffic = ''c e traffic''"
definition kEarlyExporter :: string where "kEarlyExporter = ''e exp master''"
definition kClientHandshakeTraffic :: string where "kClientHandshakeTraffic = ''c hs traffic''"
definition kServerHandshakeTraffic :: string where "kServerHandshakeTraffic = ''s hs traffic''"
definition kClientAppTraffic :: string where "kClientAppTraffic = ''c ap traffic''"
definition kServerAppTraffic :: string where "kServerAppTraffic = ''s ap traffic''"
definition kExporterMaster :: string where "kExporterMaster = ''exp master''"
definition kResumptionMaster :: string where "kResumptionMaster = ''res master''"
definition kDerivedSecret :: string where "kDerivedSecret = ''derived''"
definition kTrafficKeyUpdate :: string where "kTrafficKeyUpdate = ''traffic upd''"
definition kResumption :: string where "kResumption = ''resumption''"

text \<open>
  The chain secret: the alternatives of the \<^verbatim>\<open>boost::variant\<close> that \<^verbatim>\<open>secret_\<close> holds,
  each a struct with the one field \<^verbatim>\<open>secret\<close>.
\<close>

datatype Secret = EarlySecret bytes | HandshakeSecret bytes | MasterSecret bytes

text \<open>
  Modelled from the spec: the struct \<^verbatim>\<open>AppTrafficSecret\<close> is declared in KeyScheduler.h,
  which is not among the sources; the spec gives it as
  \<^verbatim>\<open>{ client: bytes, server: bytes, client_generation: u32, server_generation: u32 }\<close>,
  and the code names the counters \<^verbatim>\<open>clientGeneration\<close> and \<^verbatim>\<open>serverGeneration\<close> and
  returns them as \<^verbatim>\<open>uint32_t\<close>.
\<close>

record AppTrafficSecret =
  client :: bytes
  server :: bytes
  clientGeneration :: "32 word"
  serverGeneration :: "32 word"

text \<open>
  Modelled from the spec: a default-constructed \<^verbatim>\<open>AppTrafficSecret\<close> (the local
  \<^verbatim>\<open>trafficSecret\<close> of \<^verbatim>\<open>deriveAppTrafficSecrets\<close>); the member initialisers are in the
  missing header, the spec says "generation counters initialized to 0".
\<close>

definition defaultAppTrafficSecret :: AppTrafficSecret where
  "defaultAppTrafficSecret =
     \<lparr>client = [], server = [], clientGeneration = 0, serverGeneration = 0\<rparr>"

text \<open>
  The two mutable members of the scheduler, both \<^verbatim>\<open>folly::Optional\<close>. (A constant cannot
  end in an underscore, so \<^verbatim>\<open>secret_\<close> is \<open>secret_m\<close> and \<^verbatim>\<open>appTrafficSecret_\<close> is
  \<open>appTrafficSecret_m\<close>.)
\<close>

record KeyScheduler =
  secret_m :: "Secret option"
  appTrafficSecret_m :: "AppTrafficSecret option"

text \<open>
  Modelled from the spec: the constructor is in the missing header; a fresh scheduler is
  \<^verbatim>\<open>Uninitialized\<close> and has no application traffic secrets (both optionals empty).
\<close>

definition newKeyScheduler :: KeyScheduler where
  "newKeyScheduler = \<lparr>secret_m = None, appTrafficSecret_m = None\<rparr>"

text \<open>
  The selectors of the four \<^verbatim>\<open>getSecret\<close> overloads. Each \<^verbatim>\<open>switch\<close> has a
  \<^verbatim>\<open>default\<close> arm for a value that is none of the enumerators (a C++ \<^verbatim>\<open>enum class\<close>
  admits one through a cast); the last constructor of each type stands for such a value.
\<close>

datatype EarlySecrets =
  ExternalPskBinder | ResumptionPskBinder | ClientEarlyTraffic | EarlyExporter
  | OtherEarlySecrets
datatype HandshakeSecrets =
  ClientHandshakeTraffic | ServerHandshakeTraffic | OtherHandshakeSecrets
datatype MasterSecrets = ExporterMaster | ResumptionMaster | OtherMasterSecrets
datatype AppTrafficSecrets = ClientAppTraffic | ServerAppTraffic | OtherAppTrafficSecrets

record TrafficKey =
  key :: bytes
  iv :: bytes

subsection \<open>Failures\<close>

text \<open>
  \<^item> \<open>RuntimeError m\<close>: \<^verbatim>\<open>throw std::runtime_error(m)\<close>;
  \<^item> \<open>OptionalEmpty\<close>: \<^verbatim>\<open>folly::OptionalEmptyException\<close>, thrown by \<^verbatim>\<open>operator*\<close> of an
    empty \<^verbatim>\<open>folly::Optional\<close>;
  \<^item> \<open>BadGet\<close>: \<^verbatim>\<open>boost::bad_get\<close>, thrown by the reference form of \<^verbatim>\<open>boost::get<T>\<close> on
    a variant that holds another alternative;
  \<^item> \<open>Fatal m\<close>: \<^verbatim>\<open>LOG(FATAL) << m\<close>, which aborts the process.

  A member function is modelled as a function from the scheduler to its outcome (\<open>Inl\<close> the failure, \<open>Inr\<close> the
  returned value) and the scheduler it leaves behind.
\<close>

datatype error = RuntimeError string | OptionalEmpty | BadGet | Fatal string

type_synonym 'a memfun = "KeyScheduler \<Rightarrow> (error + 'a) \<times> KeyScheduler"

text \<open>\<^verbatim>\<open>boost::get<EarlySecret>(*secret_)\<close> and its two siblings.\<close>

fun getEarlySecret :: "Secret option \<Rightarrow> error + bytes" where
  "getEarlySecret None = Inl OptionalEmpty"
| "getEarlySecret (Some (EarlySecret x)) = Inr x"
| "getEarlySecret (Some _) = Inl BadGet"

fun getHandshakeSecret :: "Secret option \<Rightarrow> error + bytes" where
  "getHandshakeSecret None = Inl OptionalEmpty"
| "getHandshakeSecret (Some (HandshakeSecret x)) = Inr x"
| "getHandshakeSecret (Some _) = Inl BadGet"

fun getMasterSecret :: "Secret option \<Rightarrow> error + bytes" where
  "getMasterSecret None = Inl OptionalEmpty"
| "getMasterSecret (Some (MasterSecret x)) = Inr x"
| "getMasterSecret (Some _) = Inl BadGet"

subsection \<open>The secret chain\<close>

text \<open>\<^verbatim>\<open>std::vector<uint8_t>(deriver_->hashLength(), 0)\<close>\<close>

definition zeros :: "KeyDerivation \<Rightarrow> bytes" where
  "zeros d = replicate (hashLength d) 0"

definition deriveEarlySecret :: "KeyDerivation \<Rightarrow> bytes \<Rightarrow> unit memfun" where
  "deriveEarlySecret d psk s =
     (if secret_m s \<noteq> None then (Inl (RuntimeError ''secret already set''), s)
      else (Inr (), s\<lparr>secret_m := Some (EarlySecret (hkdfExtract d (zeros d) psk))\<rparr>))"

text \<open>The overload without argument.\<close>

definition deriveHandshakeSecret :: "KeyDerivation \<Rightarrow> unit memfun" where
  "deriveHandshakeSecret d s =
     (case getEarlySecret (secret_m s) of
        Inl e \<Rightarrow> (Inl e, s)
      | Inr earlySecret \<Rightarrow>
          (let preSecret = deriveSecret d earlySecret kDerivedSecret (blankHash d)
           in (Inr (),
               s\<lparr>secret_m := Some (HandshakeSecret (hkdfExtract d preSecret (zeros d)))\<rparr>)))"

text \<open>The overload \<^verbatim>\<open>deriveHandshakeSecret(folly::ByteRange ecdhe)\<close>.\<close>

definition deriveHandshakeSecret_ecdhe :: "KeyDerivation \<Rightarrow> bytes \<Rightarrow> unit memfun" where
  "deriveHandshakeSecret_ecdhe d ecdhe s =
     (let s1 = (if secret_m s = None
                then s\<lparr>secret_m := Some (EarlySecret (hkdfExtract d (zeros d) (zeros d)))\<rparr>
                else s)
      in case getEarlySecret (secret_m s1) of
           Inl e \<Rightarrow> (Inl e, s1)
         | Inr earlySecret \<Rightarrow>
             (let preSecret = deriveSecret d earlySecret kDerivedSecret (blankHash d)
              in (Inr (),
                  s1\<lparr>secret_m := Some (HandshakeSecret (hkdfExtract d preSecret ecdhe))\<rparr>)))"

definition deriveMasterSecret :: "KeyDerivation \<Rightarrow> unit memfun" where
  "deriveMasterSecret d s =
     (case getHandshakeSecret (secret_m s) of
        Inl e \<Rightarrow> (Inl e, s)
      | Inr handshakeSecret \<Rightarrow>
          (let preSecret = deriveSecret d handshakeSecret kDerivedSecret (blankHash d)
           in (Inr (),
               s\<lparr>secret_m := Some (MasterSecret (hkdfExtract d preSecret (zeros d)))\<rparr>)))"

definition clearMasterSecret :: "unit memfun" where
  "clearMasterSecret s =
     (case getMasterSecret (secret_m s) of
        Inl e \<Rightarrow> (Inl e, s)
      | Inr _ \<Rightarrow> (Inr (), s\<lparr>secret_m := None\<rparr>))"

subsection \<open>Application traffic secrets and key updates\<close>

definition deriveAppTrafficSecrets :: "KeyDerivation \<Rightarrow> bytes \<Rightarrow> unit memfun" where
  "deriveAppTrafficSecrets d transcript s =
     (case getMasterSecret (secret_m s) of
        Inl e \<Rightarrow> (Inl e, s)
      | Inr masterSecret \<Rightarrow>
          (let trafficSecret = defaultAppTrafficSecret
                 \<lparr>client := deriveSecret d masterSecret kClientAppTraffic transcript,
                  server := deriveSecret d masterSecret kServerAppTraffic transcript\<rparr>
           in (Inr (), s\<lparr>appTrafficSecret_m := Some trafficSecret\<rparr>)))"

definition clientKeyUpdate :: "KeyDerivation \<Rightarrow> (32 word) memfun" where
  "clientKeyUpdate d s =
     (case appTrafficSecret_m s of
        None \<Rightarrow> (Inl OptionalEmpty, s)
      | Some appTrafficSecret \<Rightarrow>
          (let buf = expandLabel d (client appTrafficSecret) kTrafficKeyUpdate []
                       (hashLength d);
               a1 = appTrafficSecret\<lparr>client := buf\<rparr>;
               a2 = a1\<lparr>clientGeneration := clientGeneration a1 + 1\<rparr>
           in (Inr (clientGeneration a2), s\<lparr>appTrafficSecret_m := Some a2\<rparr>)))"

definition serverKeyUpdate :: "KeyDerivation \<Rightarrow> (32 word) memfun" where
  "serverKeyUpdate d s =
     (case appTrafficSecret_m s of
        None \<Rightarrow> (Inl OptionalEmpty, s)
      | Some appTrafficSecret \<Rightarrow>
          (let buf = expandLabel d (server appTrafficSecret) kTrafficKeyUpdate []
                       (hashLength d);
               a1 = appTrafficSecret\<lparr>server := buf\<rparr>;
               a2 = a1\<lparr>serverGeneration := serverGeneration a1 + 1\<rparr>
           in (Inr (serverGeneration a2), s\<lparr>appTrafficSecret_m := Some a2\<rparr>)))"

subsection \<open>Retrieval\<close>

text \<open>
  The \<^verbatim>\<open>switch\<close> of each overload, run before the chain secret is looked at: the label of
  an enumerator, or the fatal log of the default arm.
\<close>

fun earlyLabel :: "EarlySecrets \<Rightarrow> error + string" where
  "earlyLabel ExternalPskBinder = Inr kExternalPskBinder"
| "earlyLabel ResumptionPskBinder = Inr kResumptionPskBinder"
| "earlyLabel ClientEarlyTraffic = Inr kClientEarlyTraffic"
| "earlyLabel EarlyExporter = Inr kEarlyExporter"
| "earlyLabel OtherEarlySecrets = Inl (Fatal ''unknown secret'')"

fun handshakeLabel :: "HandshakeSecrets \<Rightarrow> error + string" where
  "handshakeLabel ClientHandshakeTraffic = Inr kClientHandshakeTraffic"
| "handshakeLabel ServerHandshakeTraffic = Inr kServerHandshakeTraffic"
| "handshakeLabel OtherHandshakeSecrets = Inl (Fatal ''unknown secret'')"

fun masterLabel :: "MasterSecrets \<Rightarrow> error + string" where
  "masterLabel ExporterMaster = Inr kExporterMaster"
| "masterLabel ResumptionMaster = Inr kResumptionMaster"
| "masterLabel OtherMasterSecrets = Inl (Fatal ''unknown secret'')"

definition getSecret_Early :: "KeyDerivation \<Rightarrow> EarlySecrets \<Rightarrow> bytes \<Rightarrow> bytes memfun" where
  "getSecret_Early d sel transcript s =
     (case earlyLabel sel of
        Inl e \<Rightarrow> (Inl e, s)
      | Inr label \<Rightarrow>
          (case getEarlySecret (secret_m s) of
             Inl e \<Rightarrow> (Inl e, s)
           | Inr earlySecret \<Rightarrow> (Inr (deriveSecret d earlySecret label transcript), s)))"

definition getSecret_Handshake ::
  "KeyDerivation \<Rightarrow> HandshakeSecrets \<Rightarrow> bytes \<Rightarrow> bytes memfun" where
  "getSecret_Handshake d sel transcript s =
     (case handshakeLabel sel of
        Inl e \<Rightarrow> (Inl e, s)
      | Inr label \<Rightarrow>
          (case getHandshakeSecret (secret_m s) of
             Inl e \<Rightarrow> (Inl e, s)
           | Inr handshakeSecret \<Rightarrow>
               (Inr (deriveSecret d handshakeSecret label transcript), s)))"

definition getSecret_Master :: "KeyDerivation \<Rightarrow> MasterSecrets \<Rightarrow> bytes \<Rightarrow> bytes memfun" where
  "getSecret_Master d sel transcript s =
     (case masterLabel sel of
        Inl e \<Rightarrow> (Inl e, s)
      | Inr label \<Rightarrow>
          (case getMasterSecret (secret_m s) of
             Inl e \<Rightarrow> (Inl e, s)
           | Inr masterSecret \<Rightarrow> (Inr (deriveSecret d masterSecret label transcript), s)))"

definition getSecret_AppTraffic :: "AppTrafficSecrets \<Rightarrow> bytes memfun" where
  "getSecret_AppTraffic sel s =
     (case appTrafficSecret_m s of
        None \<Rightarrow> (Inl OptionalEmpty, s)
      | Some appTrafficSecret \<Rightarrow>
          (case sel of
             ClientAppTraffic \<Rightarrow> (Inr (client appTrafficSecret), s)
           | ServerAppTraffic \<Rightarrow> (Inr (server appTrafficSecret), s)
           | OtherAppTrafficSecrets \<Rightarrow> (Inl (Fatal ''unknown secret''), s)))"

subsection \<open>Keys and resumption secrets\<close>

text \<open>
  Both are \<^verbatim>\<open>const\<close> methods; \<^verbatim>\<open>folly::IOBuf::create(0)\<close> is the empty context and
  \<^verbatim>\<open>folly::IOBuf::wrapBuffer(ticketNonce)\<close> the nonce's bytes.
\<close>

definition getTrafficKey :: "KeyDerivation \<Rightarrow> bytes \<Rightarrow> nat \<Rightarrow> nat \<Rightarrow> TrafficKey memfun" where
  "getTrafficKey d trafficSecret keyLength ivLength s =
     (let trafficKey =
            \<lparr>key = expandLabel d trafficSecret kTrafficKey [] keyLength,
             iv = expandLabel d trafficSecret kTrafficIv [] ivLength\<rparr>
      in (Inr trafficKey, s))"

definition getResumptionSecret :: "KeyDerivation \<Rightarrow> bytes \<Rightarrow> bytes \<Rightarrow> bytes memfun" where
  "getResumptionSecret d resumptionMasterSecret ticketNonce s =
     (Inr (expandLabel d resumptionMasterSecret kResumption ticketNonce (hashLength d)), s)"

subsection \<open>Callers\<close>

text \<open>
  What a caller can do with a scheduler: one constructor for each public method with its
  arguments. \<open>after\<close> is the scheduler a call leaves behind, whether it returned or threw
  (a caller that catches the exception goes on with that scheduler), \<open>returns\<close> says that
  the call returned normally, and \<open>run\<close> makes a sequence of calls from left to right.
  After a fatal log the process is gone, so a sequence that goes on after one describes no
  execution; a statement about every sequence covers the real ones all the same.
\<close>

datatype Call =
    DeriveEarlySecret bytes
  | DeriveHandshakeSecret
  | DeriveHandshakeSecretEcdhe bytes
  | DeriveMasterSecret
  | DeriveAppTrafficSecrets bytes
  | ClearMasterSecret
  | ClientKeyUpdate
  | ServerKeyUpdate
  | GetSecretEarly EarlySecrets bytes
  | GetSecretHandshake HandshakeSecrets bytes
  | GetSecretMaster MasterSecrets bytes
  | GetSecretAppTraffic AppTrafficSecrets
  | GetTrafficKey bytes nat nat
  | GetResumptionSecret bytes bytes

definition returned :: "error + 'a \<Rightarrow> bool" where
  "returned r = (case r of Inl _ \<Rightarrow> False | Inr _ \<Rightarrow> True)"

fun outcome :: "KeyDerivation \<Rightarrow> Call \<Rightarrow> KeyScheduler \<Rightarrow> bool \<times> KeyScheduler" where
  "outcome d (DeriveEarlySecret psk) s = map_prod returned id (deriveEarlySecret d psk s)"
| "outcome d DeriveHandshakeSecret s = map_prod returned id (deriveHandshakeSecret d s)"
| "outcome d (DeriveHandshakeSecretEcdhe e) s =
     map_prod returned id (deriveHandshakeSecret_ecdhe d e s)"
| "outcome d DeriveMasterSecret s = map_prod returned id (deriveMasterSecret d s)"
| "outcome d (DeriveAppTrafficSecrets t) s = map_prod returned id (deriveAppTrafficSecrets d t s)"
| "outcome d ClearMasterSecret s = map_prod returned id (clearMasterSecret s)"
| "outcome d ClientKeyUpdate s = map_prod returned id (clientKeyUpdate d s)"
| "outcome d ServerKeyUpdate s = map_prod returned id (serverKeyUpdate d s)"
| "outcome d (GetSecretEarly sel t) s = map_prod returned id (getSecret_Early d sel t s)"
| "outcome d (GetSecretHandshake sel t) s = map_prod returned id (getSecret_Handshake d sel t s)"
| "outcome d (GetSecretMaster sel t) s = map_prod returned id (getSecret_Master d sel t s)"
| "outcome d (GetSecretAppTraffic sel) s = map_prod returned id (getSecret_AppTraffic sel s)"
| "outcome d (GetTrafficKey ts kl il) s = map_prod returned id (getTrafficKey d ts kl il s)"
| "outcome d (GetResumptionSecret r n) s = map_prod returned id (getResumptionSecret d r n s)"


definition after :: "KeyDerivation \<Rightarrow> Call \<Rightarrow> KeyScheduler \<Rightarrow> KeyScheduler" where
  "after d c s = snd (outcome d c s)"

definition run :: "KeyDerivation \<Rightarrow> Call list \<Rightarrow> KeyScheduler \<Rightarrow> KeyScheduler" where
  "run d cs s = fold (after d) cs s"

text \<open>\<open>n\<close> calls of the same method in a row: the outcomes in order and the last scheduler.\<close>

fun repeatCall :: "'a memfun \<Rightarrow> nat \<Rightarrow> KeyScheduler \<Rightarrow> (error + 'a) list \<times> KeyScheduler" where
  "repeatCall m 0 s = ([], s)"
| "repeatCall m (Suc n) s =
     (case m s of (r, s1) \<Rightarrow> (case repeatCall m n s1 of (rs, s2) \<Rightarrow> (r # rs, s2)))"

text \<open>Which alternative the chain slot holds, if any.\<close>

datatype Variant = Empty | Early | Handshake | Master

fun variant :: "KeyScheduler \<Rightarrow> Variant" where
  "variant s =
     (case secret_m s of
        None \<Rightarrow> Empty
      | Some (EarlySecret _) \<Rightarrow> Early
      | Some (HandshakeSecret _) \<Rightarrow> Handshake
      | Some (MasterSecret _) \<Rightarrow> Master)"

text \<open>The place of a variant on the ladder.\<close>

fun rank :: "Variant \<Rightarrow> nat" where
  "rank Empty = 0"
| "rank Early = 1"
| "rank Handshake = 2"
| "rank Master = 3"

text \<open>
  The two counters of the application traffic slot, when it is filled, read as unsigned
  numbers: the client generation first.
\<close>

definition generations :: "KeyScheduler \<Rightarrow> (nat \<times> nat) option" where
  "generations s =
     map_option (\<lambda>a. (unat (clientGeneration a), unat (serverGeneration a)))
       (appTrafficSecret_m s)"

text \<open>The secret that \<open>n\<close> key updates make of a traffic secret.\<close>

definition ratchet :: "KeyDerivation \<Rightarrow> nat \<Rightarrow> bytes \<Rightarrow> bytes" where
  "ratchet d n x = ((\<lambda>y. expandLabel d y kTrafficKeyUpdate [] (hashLength d)) ^^ n) x"

subsection \<open>A derivation primitive for concrete runs\<close>

text \<open>
  A stand-in for the collaborator with two-byte digests, used where a statement is
  evaluated at a concrete input. Nothing below depends on what it computes.
\<close>

definition labelSum :: "string \<Rightarrow> 8 word" where
  "labelSum l = sum_list (map of_char l)"

definition testDeriver :: KeyDerivation where
  "testDeriver =
     \<lparr>hashLength = 2,
      hkdfExtract = (\<lambda>salt ikm. [sum_list salt + 1, sum_list ikm + 2]),
      deriveSecret = (\<lambda>sec label ctx. [sum_list sec + labelSum label, sum_list ctx + 3]),
      expandLabel = (\<lambda>sec label ctx n. replicate n (sum_list sec + sum_list ctx + labelSum label)),
      blankHash = [7, 9]\<rparr>"

subsection \<open>Sample schedulers\<close>

text \<open>
  The schedulers that \<open>testDeriver\<close> reaches from a fresh one by \<^verbatim>\<open>deriveEarlySecret([1])\<close>,
  \<^verbatim>\<open>deriveHandshakeSecret([2])\<close>, \<^verbatim>\<open>deriveMasterSecret()\<close> and
  \<^verbatim>\<open>deriveAppTrafficSecrets([5])\<close>, in this order (lemma \<open>sample_run\<close> below).
\<close>

definition earlyState :: KeyScheduler where
  "earlyState = \<lparr>secret_m = Some (EarlySecret [1, 3]), appTrafficSecret_m = None\<rparr>"

definition handshakeState :: KeyScheduler where
  "handshakeState = \<lparr>secret_m = Some (HandshakeSecret [251, 4]), appTrafficSecret_m = None\<rparr>"

definition masterState :: KeyScheduler where
  "masterState = \<lparr>secret_m = Some (MasterSecret [246, 2]), appTrafficSecret_m = None\<rparr>"

definition trafficState :: KeyScheduler where
  "trafficState =
     \<lparr>secret_m = Some (MasterSecret [246, 2]),
      appTrafficSecret_m =
        Some \<lparr>client = [75, 8], server = [91, 8],
              clientGeneration = 0, serverGeneration = 0\<rparr>\<rparr>"

section \<open>Properties\<close>

lemmas label_defs =
  kTrafficKey_def kTrafficIv_def kExternalPskBinder_def kResumptionPskBinder_def
  kClientEarlyTraffic_def kEarlyExporter_def kClientHandshakeTraffic_def
  kServerHandshakeTraffic_def kClientAppTraffic_def kServerAppTraffic_def
  kExporterMaster_def kResumptionMaster_def kDerivedSecret_def kTrafficKeyUpdate_def
  kResumption_def

lemmas memfun_defs =
  deriveEarlySecret_def deriveHandshakeSecret_def deriveHandshakeSecret_ecdhe_def
  deriveMasterSecret_def clearMasterSecret_def deriveAppTrafficSecrets_def
  clientKeyUpdate_def serverKeyUpdate_def getSecret_Early_def getSecret_Handshake_def
  getSecret_Master_def getSecret_AppTraffic_def getTrafficKey_def getResumptionSecret_def

lemma replicate_2: "replicate 2 x = [x, x]"
  by (simp add: numeral_2_eq_2)

lemmas test_defs =
  testDeriver_def labelSum_def newKeyScheduler_def zeros_def defaultAppTrafficSecret_def
  replicate_2

lemmas sample_defs = earlyState_def handshakeState_def masterState_def trafficState_def

subsection \<open>The sample schedulers are reachable\<close>

lemma sample_early: "deriveEarlySecret testDeriver [1] newKeyScheduler = (Inr (), earlyState)"
  by (simp add: deriveEarlySecret_def test_defs sample_defs)

lemma sample_handshake:
  "deriveHandshakeSecret_ecdhe testDeriver [2] earlyState = (Inr (), handshakeState)"
  by (simp add: deriveHandshakeSecret_ecdhe_def test_defs sample_defs label_defs)

lemma sample_master: "deriveMasterSecret testDeriver handshakeState = (Inr (), masterState)"
  by (simp add: deriveMasterSecret_def test_defs sample_defs label_defs)

lemma sample_traffic:
  "deriveAppTrafficSecrets testDeriver [5] masterState = (Inr (), trafficState)"
  by (simp add: deriveAppTrafficSecrets_def test_defs sample_defs label_defs)

lemma sample_run:
  "run testDeriver [DeriveEarlySecret [1]] newKeyScheduler = earlyState"
  "run testDeriver [DeriveEarlySecret [1], DeriveHandshakeSecretEcdhe [2]] newKeyScheduler =
     handshakeState"
  "run testDeriver [DeriveEarlySecret [1], DeriveHandshakeSecretEcdhe [2], DeriveMasterSecret]
     newKeyScheduler = masterState"
  "run testDeriver [DeriveEarlySecret [1], DeriveHandshakeSecretEcdhe [2], DeriveMasterSecret,
     DeriveAppTrafficSecrets [5]] newKeyScheduler = trafficState"
  by (simp_all add: run_def after_def sample_early sample_handshake sample_master
        sample_traffic)

subsection \<open>The secret chain\<close>

text \<open>
  Claim C1. With the derivation primitive \<open>d\<close> fixed, the chain is the ladder of RFC 8446:
  on an empty slot \<^verbatim>\<open>deriveEarlySecret(psk)\<close> stores \<open>hkdfExtract(zeros[hashLen], psk)\<close> as
  the early secret; on an early secret \<open>es\<close> \<^verbatim>\<open>deriveHandshakeSecret(ecdhe)\<close> stores
  \<open>hkdfExtract(deriveSecret(es, "derived", blankHash), ecdhe)\<close> as the handshake secret; on
  a handshake secret \<open>hs\<close> \<^verbatim>\<open>deriveMasterSecret()\<close> stores
  \<open>hkdfExtract(deriveSecret(hs, "derived", blankHash), zeros[hashLen])\<close> as the master
  secret. Each of the three returns normally and changes nothing else.
\<close>

theorem secret_chain_ladder:
  "(secret_m s = None \<longrightarrow>
      deriveEarlySecret d psk s =
        (Inr (),
         s\<lparr>secret_m := Some (EarlySecret
              (hkdfExtract d (replicate (hashLength d) 0) psk))\<rparr>))
   \<and> (secret_m s = Some (EarlySecret es) \<longrightarrow>
      deriveHandshakeSecret_ecdhe d ecdhe s =
        (Inr (),
         s\<lparr>secret_m := Some (HandshakeSecret
              (hkdfExtract d (deriveSecret d es ''derived'' (blankHash d)) ecdhe))\<rparr>))
   \<and> (secret_m s = Some (HandshakeSecret hs) \<longrightarrow>
      deriveMasterSecret d s =
        (Inr (),
         s\<lparr>secret_m := Some (MasterSecret
              (hkdfExtract d (deriveSecret d hs ''derived'' (blankHash d))
                 (replicate (hashLength d) 0)))\<rparr>))"
  by (simp add: deriveEarlySecret_def deriveHandshakeSecret_ecdhe_def deriveMasterSecret_def
        zeros_def kDerivedSecret_def)

theorem secret_chain_ladder_witness:
  "deriveEarlySecret testDeriver [1] newKeyScheduler = (Inr (), earlyState)
   \<and> deriveHandshakeSecret_ecdhe testDeriver [2] earlyState = (Inr (), handshakeState)
   \<and> deriveMasterSecret testDeriver handshakeState = (Inr (), masterState)"
  using secret_chain_ladder [where s = newKeyScheduler and d = testDeriver and psk = "[1]"]
        secret_chain_ladder [where s = earlyState and d = testDeriver and es = "[1, 3]"
          and ecdhe = "[2]"]
        secret_chain_ladder [where s = handshakeState and d = testDeriver and hs = "[251, 4]"]
  by (simp add: test_defs sample_defs)

text \<open>
  Claim C7. When a chain secret is already set, whichever variant it is,
  \<^verbatim>\<open>deriveEarlySecret\<close> throws the runtime error "secret already set" and leaves the
  scheduler as it was: a second call never overwrites the first early secret.
\<close>

theorem deriveEarlySecret_already_set:
  "secret_m s \<noteq> None \<Longrightarrow>
     deriveEarlySecret d psk s = (Inl (RuntimeError ''secret already set''), s)"
  by (simp add: deriveEarlySecret_def)

theorem deriveEarlySecret_already_set_witness:
  "secret_m earlyState \<noteq> None
   \<and> deriveEarlySecret testDeriver [9] earlyState =
       (Inl (RuntimeError ''secret already set''), earlyState)"
proof -
  have h: "secret_m earlyState \<noteq> None"
    by (simp add: earlyState_def)
  from h deriveEarlySecret_already_set [OF h, of testDeriver "[9]"] show ?thesis
    by simp
qed

text \<open>
  Claim C3, as the code has it. The overload of \<^verbatim>\<open>deriveHandshakeSecret\<close> without argument
  needs a live early secret \<open>es\<close>: it stores
  \<open>hkdfExtract(deriveSecret(es, "derived", blankHash), zeros[hashLen])\<close> as the handshake
  secret, and on an empty slot (a fresh scheduler) it throws and changes nothing. The
  bootstrap is in the other overload: on an empty slot \<^verbatim>\<open>deriveHandshakeSecret(ecdhe)\<close>
  takes \<open>hkdfExtract(zeros[hashLen], zeros[hashLen])\<close> for the early secret and stores the
  handshake secret derived from it and \<open>ecdhe\<close>.
\<close>

theorem deriveHandshakeSecret_overloads:
  "(secret_m s = Some (EarlySecret es) \<longrightarrow>
      deriveHandshakeSecret d s =
        (Inr (),
         s\<lparr>secret_m := Some (HandshakeSecret
              (hkdfExtract d (deriveSecret d es ''derived'' (blankHash d))
                 (replicate (hashLength d) 0)))\<rparr>))
   \<and> (secret_m s = None \<longrightarrow> deriveHandshakeSecret d s = (Inl OptionalEmpty, s))
   \<and> (secret_m s = None \<longrightarrow>
      deriveHandshakeSecret_ecdhe d ecdhe s =
        (Inr (),
         s\<lparr>secret_m := Some (HandshakeSecret
              (hkdfExtract d
                 (deriveSecret d
                    (hkdfExtract d (replicate (hashLength d) 0) (replicate (hashLength d) 0))
                    ''derived'' (blankHash d))
                 ecdhe))\<rparr>))"
  by (simp add: deriveHandshakeSecret_def deriveHandshakeSecret_ecdhe_def zeros_def
        kDerivedSecret_def)

theorem deriveHandshakeSecret_overloads_witness:
  "deriveHandshakeSecret testDeriver earlyState =
     (Inr (), \<lparr>secret_m = Some (HandshakeSecret [251, 2]), appTrafficSecret_m = None\<rparr>)
   \<and> deriveHandshakeSecret testDeriver newKeyScheduler = (Inl OptionalEmpty, newKeyScheduler)
   \<and> deriveHandshakeSecret_ecdhe testDeriver [2] newKeyScheduler =
     (Inr (), \<lparr>secret_m = Some (HandshakeSecret [250, 4]), appTrafficSecret_m = None\<rparr>)"
  using deriveHandshakeSecret_overloads [where s = earlyState and d = testDeriver
          and es = "[1, 3]"]
        deriveHandshakeSecret_overloads [where s = newKeyScheduler and d = testDeriver
          and ecdhe = "[2]"]
  by (simp add: test_defs sample_defs)

text \<open>
  The claim as the spec words it fails: called first on a fresh scheduler, the overload
  without argument throws \<^verbatim>\<open>folly::OptionalEmptyException\<close> and stores nothing.
\<close>

theorem deriveHandshakeSecret_fresh_fails:
  "deriveHandshakeSecret testDeriver newKeyScheduler = (Inl OptionalEmpty, newKeyScheduler)"
  by (simp add: deriveHandshakeSecret_def newKeyScheduler_def)

text \<open>What each chain operation needs and leaves, variant by variant.\<close>

lemma chain_table:
  "(variant s = Empty \<longrightarrow>
      fst (deriveEarlySecret d psk s) = Inr ()
      \<and> variant (snd (deriveEarlySecret d psk s)) = Early)
   \<and> (variant s \<noteq> Empty \<longrightarrow>
      isl (fst (deriveEarlySecret d psk s)) \<and> snd (deriveEarlySecret d psk s) = s)
   \<and> (variant s = Early \<longrightarrow>
      fst (deriveHandshakeSecret d s) = Inr ()
      \<and> variant (snd (deriveHandshakeSecret d s)) = Handshake)
   \<and> (variant s \<noteq> Early \<longrightarrow>
      isl (fst (deriveHandshakeSecret d s)) \<and> snd (deriveHandshakeSecret d s) = s)
   \<and> (variant s = Empty \<or> variant s = Early \<longrightarrow>
      fst (deriveHandshakeSecret_ecdhe d e s) = Inr ()
      \<and> variant (snd (deriveHandshakeSecret_ecdhe d e s)) = Handshake)
   \<and> (variant s = Handshake \<or> variant s = Master \<longrightarrow>
      isl (fst (deriveHandshakeSecret_ecdhe d e s))
      \<and> snd (deriveHandshakeSecret_ecdhe d e s) = s)
   \<and> (variant s = Handshake \<longrightarrow>
      fst (deriveMasterSecret d s) = Inr ()
      \<and> variant (snd (deriveMasterSecret d s)) = Master)
   \<and> (variant s \<noteq> Handshake \<longrightarrow>
      isl (fst (deriveMasterSecret d s)) \<and> snd (deriveMasterSecret d s) = s)
   \<and> (variant s = Master \<longrightarrow> clearMasterSecret s = (Inr (), s\<lparr>secret_m := None\<rparr>))
   \<and> (variant s \<noteq> Master \<longrightarrow>
      isl (fst (clearMasterSecret s)) \<and> snd (clearMasterSecret s) = s)
   \<and> (variant s = Empty \<longrightarrow>
      isl (fst (getSecret_Early d sel_e t s))
      \<and> isl (fst (getSecret_Handshake d sel_h t s))
      \<and> isl (fst (getSecret_Master d sel_m t s))
      \<and> isl (fst (deriveAppTrafficSecrets d t s)))"
proof (cases "secret_m s")
  case None
  then show ?thesis
    by (simp add: memfun_defs split: sum.split)
next
  case (Some v)
  then show ?thesis
    by (cases v) (simp_all add: memfun_defs)
qed

text \<open>The operations outside the chain leave the chain slot alone.\<close>

lemma secret_kept:
  "secret_m (snd (deriveAppTrafficSecrets d t s)) = secret_m s"
  "secret_m (snd (clientKeyUpdate d s)) = secret_m s"
  "secret_m (snd (serverKeyUpdate d s)) = secret_m s"
  "secret_m (snd (getSecret_Early d sel_e t s)) = secret_m s"
  "secret_m (snd (getSecret_Handshake d sel_h t s)) = secret_m s"
  "secret_m (snd (getSecret_Master d sel_m t s)) = secret_m s"
  "secret_m (snd (getSecret_AppTraffic sel_a s)) = secret_m s"
  "secret_m (snd (getTrafficKey d ts kl il s)) = secret_m s"
  "secret_m (snd (getResumptionSecret d r n s)) = secret_m s"
  by (simp_all add: memfun_defs Let_def
        split: sum.split option.split AppTrafficSecrets.split)

text \<open>One call, whatever it is, moves the slot along the ladder or not at all.\<close>

lemma chain_step:
  "secret_m (after d c s) = secret_m s
   \<or> variant s = Empty \<and> variant (after d c s) = Early
   \<or> variant s = Empty \<and> variant (after d c s) = Handshake
   \<or> variant s = Early \<and> variant (after d c s) = Handshake
   \<or> variant s = Handshake \<and> variant (after d c s) = Master
   \<or> variant s = Master \<and> variant (after d c s) = Empty"
proof (cases c)
  case (DeriveEarlySecret psk)
  then show ?thesis
    by (cases "secret_m s") (simp_all add: after_def deriveEarlySecret_def)
next
  case DeriveHandshakeSecret
  show ?thesis
  proof (cases "secret_m s")
    case None
    then show ?thesis
      by (simp add: DeriveHandshakeSecret after_def deriveHandshakeSecret_def)
  next
    case (Some v)
    then show ?thesis
      by (cases v) (simp_all add: DeriveHandshakeSecret after_def deriveHandshakeSecret_def)
  qed
next
  case (DeriveHandshakeSecretEcdhe e)
  show ?thesis
  proof (cases "secret_m s")
    case None
    then show ?thesis
      by (simp add: DeriveHandshakeSecretEcdhe after_def deriveHandshakeSecret_ecdhe_def)
  next
    case (Some v)
    then show ?thesis
      by (cases v)
         (simp_all add: DeriveHandshakeSecretEcdhe after_def deriveHandshakeSecret_ecdhe_def)
  qed
next
  case DeriveMasterSecret
  show ?thesis
  proof (cases "secret_m s")
    case None
    then show ?thesis
      by (simp add: DeriveMasterSecret after_def deriveMasterSecret_def)
  next
    case (Some v)
    then show ?thesis
      by (cases v) (simp_all add: DeriveMasterSecret after_def deriveMasterSecret_def)
  qed
next
  case ClearMasterSecret
  show ?thesis
  proof (cases "secret_m s")
    case None
    then show ?thesis
      by (simp add: ClearMasterSecret after_def clearMasterSecret_def)
  next
    case (Some v)
    then show ?thesis
      by (cases v) (simp_all add: ClearMasterSecret after_def clearMasterSecret_def)
  qed
qed (simp_all add: after_def secret_kept)

lemma rank_step:
  "c \<noteq> ClearMasterSecret \<Longrightarrow> rank (variant s) \<le> rank (variant (after d c s))"
proof -
  assume c: "c \<noteq> ClearMasterSecret"
  have same: "secret_m s' = secret_m s \<Longrightarrow> variant s' = variant s" for s'
    by simp
  have kept: "\<not> (variant s = Master \<and> variant (after d c s) = Empty)
              \<or> secret_m (after d c s) = secret_m s"
  proof (cases c)
    case ClearMasterSecret
    with c show ?thesis by simp
  qed (simp_all add: after_def secret_kept deriveEarlySecret_def deriveHandshakeSecret_def
         deriveHandshakeSecret_ecdhe_def deriveMasterSecret_def Let_def
         split: sum.split option.split Secret.split)
  from chain_step [of d c s] kept show ?thesis
    using same [of "after d c s"] by (auto simp del: variant.simps)
qed

lemma rank_run:
  "ClearMasterSecret \<notin> set cs \<Longrightarrow> rank (variant s) \<le> rank (variant (run d cs s))"
proof (induction cs arbitrary: s)
  case Nil
  then show ?case
    by (simp add: run_def)
next
  case (Cons x xs)
  have x: "x \<noteq> ClearMasterSecret" and xs: "ClearMasterSecret \<notin> set xs"
    using Cons.prems by auto
  have "rank (variant s) \<le> rank (variant (after d x s))"
    by (rule rank_step [OF x])
  also have "\<dots> \<le> rank (variant (run d xs (after d x s)))"
    by (rule Cons.IH [OF xs])
  finally show ?case
    by (simp add: run_def)
qed

text \<open>
  Claim C2, as the code has it. The slot advances empty, early, handshake, master, empty:
  \<^verbatim>\<open>deriveEarlySecret\<close> needs the empty slot, \<^verbatim>\<open>deriveHandshakeSecret()\<close> an early
  secret, \<^verbatim>\<open>deriveHandshakeSecret(ecdhe)\<close> an early secret or the empty slot,
  \<^verbatim>\<open>deriveMasterSecret\<close> a handshake secret and \<^verbatim>\<open>clearMasterSecret\<close> a master secret,
  which it erases, leaving the slot empty; a call on any other variant throws and leaves
  the scheduler unchanged. The cleared slot is the empty slot of a fresh scheduler and not a
  terminal state: the phase retrievals, \<^verbatim>\<open>deriveHandshakeSecret()\<close>,
  \<^verbatim>\<open>deriveMasterSecret\<close>, \<^verbatim>\<open>deriveAppTrafficSecrets\<close> and \<^verbatim>\<open>clearMasterSecret\<close> fail on
  it, while \<^verbatim>\<open>deriveEarlySecret\<close> and \<^verbatim>\<open>deriveHandshakeSecret(ecdhe)\<close> succeed.
  No other operation writes the chain slot: \<^verbatim>\<open>deriveAppTrafficSecrets\<close>, the key updates,
  every \<^verbatim>\<open>getSecret\<close>, \<^verbatim>\<open>getTrafficKey\<close> and \<^verbatim>\<open>getResumptionSecret\<close> leave it as it is.
  So every call of every operation, returning or throwing, either leaves the chain secret
  unchanged or moves the slot along one of the five steps empty to early, empty to
  handshake, early to handshake, handshake to master, master to empty; and over every
  sequence of calls without \<^verbatim>\<open>clearMasterSecret\<close> the slot never moves back on the ladder.
\<close>

theorem chain_transitions:
  "((variant s = Empty \<longrightarrow>
      fst (deriveEarlySecret d psk s) = Inr ()
      \<and> variant (snd (deriveEarlySecret d psk s)) = Early)
   \<and> (variant s \<noteq> Empty \<longrightarrow>
      isl (fst (deriveEarlySecret d psk s)) \<and> snd (deriveEarlySecret d psk s) = s)
   \<and> (variant s = Early \<longrightarrow>
      fst (deriveHandshakeSecret d s) = Inr ()
      \<and> variant (snd (deriveHandshakeSecret d s)) = Handshake)
   \<and> (variant s \<noteq> Early \<longrightarrow>
      isl (fst (deriveHandshakeSecret d s)) \<and> snd (deriveHandshakeSecret d s) = s)
   \<and> (variant s = Empty \<or> variant s = Early \<longrightarrow>
      fst (deriveHandshakeSecret_ecdhe d e s) = Inr ()
      \<and> variant (snd (deriveHandshakeSecret_ecdhe d e s)) = Handshake)
   \<and> (variant s = Handshake \<or> variant s = Master \<longrightarrow>
      isl (fst (deriveHandshakeSecret_ecdhe d e s))
      \<and> snd (deriveHandshakeSecret_ecdhe d e s) = s)
   \<and> (variant s = Handshake \<longrightarrow>
      fst (deriveMasterSecret d s) = Inr ()
      \<and> variant (snd (deriveMasterSecret d s)) = Master)
   \<and> (variant s \<noteq> Handshake \<longrightarrow>
      isl (fst (deriveMasterSecret d s)) \<and> snd (deriveMasterSecret d s) = s)
   \<and> (variant s = Master \<longrightarrow> clearMasterSecret s = (Inr (), s\<lparr>secret_m := None\<rparr>))
   \<and> (variant s \<noteq> Master \<longrightarrow>
      isl (fst (clearMasterSecret s)) \<and> snd (clearMasterSecret s) = s)
   \<and> (variant s = Empty \<longrightarrow>
      isl (fst (getSecret_Early d sel_e t s))
      \<and> isl (fst (getSecret_Handshake d sel_h t s))
      \<and> isl (fst (getSecret_Master d sel_m t s))
      \<and> isl (fst (deriveAppTrafficSecrets d t s))))
   \<and> secret_m (snd (deriveAppTrafficSecrets d t s)) = secret_m s
   \<and> secret_m (snd (clientKeyUpdate d s)) = secret_m s
   \<and> secret_m (snd (serverKeyUpdate d s)) = secret_m s
   \<and> secret_m (snd (getSecret_Early d sel_e t s)) = secret_m s
   \<and> secret_m (snd (getSecret_Handshake d sel_h t s)) = secret_m s
   \<and> secret_m (snd (getSecret_Master d sel_m t s)) = secret_m s
   \<and> secret_m (snd (getSecret_AppTraffic sel_a s)) = secret_m s
   \<and> secret_m (snd (getTrafficKey d ts kl il s)) = secret_m s
   \<and> secret_m (snd (getResumptionSecret d r n s)) = secret_m s
   \<and> (secret_m (after d c s) = secret_m s
      \<or> variant s = Empty \<and> variant (after d c s) = Early
      \<or> variant s = Empty \<and> variant (after d c s) = Handshake
      \<or> variant s = Early \<and> variant (after d c s) = Handshake
      \<or> variant s = Handshake \<and> variant (after d c s) = Master
      \<or> variant s = Master \<and> variant (after d c s) = Empty)
   \<and> (ClearMasterSecret \<notin> set cs \<longrightarrow> rank (variant s) \<le> rank (variant (run d cs s)))"
proof -
  note table = chain_table [where s = s and d = d and psk = psk and e = e and t = t
      and sel_e = sel_e and sel_h = sel_h and sel_m = sel_m]
  have frame:
    "secret_m (snd (deriveAppTrafficSecrets d t s)) = secret_m s
   \<and> secret_m (snd (clientKeyUpdate d s)) = secret_m s
   \<and> secret_m (snd (serverKeyUpdate d s)) = secret_m s
   \<and> secret_m (snd (getSecret_Early d sel_e t s)) = secret_m s
   \<and> secret_m (snd (getSecret_Handshake d sel_h t s)) = secret_m s
   \<and> secret_m (snd (getSecret_Master d sel_m t s)) = secret_m s
   \<and> secret_m (snd (getSecret_AppTraffic sel_a s)) = secret_m s
   \<and> secret_m (snd (getTrafficKey d ts kl il s)) = secret_m s
   \<and> secret_m (snd (getResumptionSecret d r n s)) = secret_m s"
    by (simp only: secret_kept simp_thms)
  have mono:
    "(ClearMasterSecret \<notin> set cs \<longrightarrow> rank (variant s) \<le> rank (variant (run d cs s)))"
    using rank_run [of cs s d] by blast
  from table frame chain_step [of d c s] mono show ?thesis
    by (simp only: simp_thms)
qed

theorem chain_transitions_witness:
  "fst (deriveEarlySecret testDeriver [9] newKeyScheduler) = Inr ()
   \<and> variant (snd (deriveEarlySecret testDeriver [9] newKeyScheduler)) = Early
   \<and> isl (fst (deriveEarlySecret testDeriver [9] masterState))
   \<and> fst (deriveHandshakeSecret testDeriver earlyState) = Inr ()
   \<and> isl (fst (deriveHandshakeSecret testDeriver masterState))
   \<and> fst (deriveHandshakeSecret_ecdhe testDeriver [2] newKeyScheduler) = Inr ()
   \<and> variant (snd (deriveHandshakeSecret_ecdhe testDeriver [2] newKeyScheduler)) = Handshake
   \<and> isl (fst (deriveHandshakeSecret_ecdhe testDeriver [2] masterState))
   \<and> fst (deriveMasterSecret testDeriver handshakeState) = Inr ()
   \<and> isl (fst (deriveMasterSecret testDeriver masterState))
   \<and> clearMasterSecret masterState = (Inr (), newKeyScheduler)
   \<and> isl (fst (clearMasterSecret newKeyScheduler))
   \<and> isl (fst (getSecret_Master testDeriver ExporterMaster [5] newKeyScheduler))
   \<and> isl (fst (deriveAppTrafficSecrets testDeriver [5] newKeyScheduler))
   \<and> secret_m (snd (deriveAppTrafficSecrets testDeriver [5] masterState)) =
       Some (MasterSecret [246, 2])
   \<and> variant (after testDeriver ClearMasterSecret masterState) = Empty
   \<and> rank (variant newKeyScheduler) \<le>
       rank (variant (run testDeriver
         [DeriveEarlySecret [1], DeriveHandshakeSecretEcdhe [2], DeriveMasterSecret,
          DeriveAppTrafficSecrets [5]] newKeyScheduler))"
proof -
  let ?cs = "[DeriveEarlySecret [1], DeriveHandshakeSecretEcdhe [2], DeriveMasterSecret,
              DeriveAppTrafficSecrets [5]]"
  have h: "ClearMasterSecret \<notin> set ?cs"
    by simp
  have changed: "secret_m (after testDeriver ClearMasterSecret masterState) \<noteq>
                   secret_m masterState"
    by (simp add: after_def clearMasterSecret_def masterState_def)
  note a = chain_transitions [where s = newKeyScheduler and d = testDeriver and psk = "[9]"
          and e = "[2]" and t = "[5]" and sel_e = ClientEarlyTraffic
          and sel_h = ServerHandshakeTraffic and sel_m = ExporterMaster
          and sel_a = ClientAppTraffic and ts = "[]" and kl = 0 and il = 0 and r = "[]"
          and n = "[]" and c = ClearMasterSecret and cs = ?cs]
  note b = chain_transitions [where s = masterState and d = testDeriver and psk = "[9]"
          and e = "[2]" and t = "[5]" and sel_e = ClientEarlyTraffic
          and sel_h = ServerHandshakeTraffic and sel_m = ExporterMaster
          and sel_a = ClientAppTraffic and ts = "[]" and kl = 0 and il = 0 and r = "[]"
          and n = "[]" and c = ClearMasterSecret and cs = ?cs]
  note c = chain_transitions [where s = earlyState and d = testDeriver and psk = "[9]"
          and e = "[2]" and t = "[5]" and sel_e = ClientEarlyTraffic
          and sel_h = ServerHandshakeTraffic and sel_m = ExporterMaster
          and sel_a = ClientAppTraffic and ts = "[]" and kl = 0 and il = 0 and r = "[]"
          and n = "[]" and c = ClearMasterSecret and cs = ?cs]
  note d = chain_transitions [where s = handshakeState and d = testDeriver and psk = "[9]"
          and e = "[2]" and t = "[5]" and sel_e = ClientEarlyTraffic
          and sel_h = ServerHandshakeTraffic and sel_m = ExporterMaster
          and sel_a = ClientAppTraffic and ts = "[]" and kl = 0 and il = 0 and r = "[]"
          and n = "[]" and c = ClearMasterSecret and cs = ?cs]
  have v: "variant newKeyScheduler = Empty" "variant masterState = Master"
    "variant earlyState = Early" "variant handshakeState = Handshake"
    "secret_m masterState = Some (MasterSecret [246, 2])"
    "masterState\<lparr>secret_m := None\<rparr> = newKeyScheduler"
    by (simp_all add: newKeyScheduler_def sample_defs)
  from a b c d h changed v show ?thesis
    by (simp del: variant.simps rank.simps set_simps)
qed

text \<open>
  The claim as the spec words it fails twice. After the chain has run and
  \<^verbatim>\<open>clearMasterSecret\<close> has returned, the scheduler is the fresh one again and
  \<^verbatim>\<open>deriveEarlySecret\<close> succeeds on it; and \<^verbatim>\<open>deriveHandshakeSecret(ecdhe)\<close> succeeds on
  a fresh scheduler, where no early secret precedes it.
\<close>

theorem cleared_is_not_terminal:
  "clearMasterSecret masterState = (Inr (), newKeyScheduler)
   \<and> run testDeriver
        [DeriveEarlySecret [1], DeriveHandshakeSecretEcdhe [2], DeriveMasterSecret,
         ClearMasterSecret] newKeyScheduler = newKeyScheduler
   \<and> deriveEarlySecret testDeriver [9]
        (run testDeriver
           [DeriveEarlySecret [1], DeriveHandshakeSecretEcdhe [2], DeriveMasterSecret,
            ClearMasterSecret] newKeyScheduler) =
       (Inr (), \<lparr>secret_m = Some (EarlySecret [1, 11]), appTrafficSecret_m = None\<rparr>)
   \<and> deriveHandshakeSecret_ecdhe testDeriver [2] newKeyScheduler =
       (Inr (), \<lparr>secret_m = Some (HandshakeSecret [250, 4]), appTrafficSecret_m = None\<rparr>)"
proof -
  have h1: "clearMasterSecret masterState = (Inr (), newKeyScheduler)"
    by (simp add: clearMasterSecret_def masterState_def newKeyScheduler_def)
  have h2:
    "run testDeriver
       [DeriveEarlySecret [1], DeriveHandshakeSecretEcdhe [2], DeriveMasterSecret,
        ClearMasterSecret] newKeyScheduler = newKeyScheduler"
    by (simp add: run_def after_def sample_early sample_handshake sample_master h1)
  have h3:
    "deriveEarlySecret testDeriver [9] newKeyScheduler =
       (Inr (), \<lparr>secret_m = Some (EarlySecret [1, 11]), appTrafficSecret_m = None\<rparr>)"
    by (simp add: deriveEarlySecret_def test_defs)
  have h4:
    "deriveHandshakeSecret_ecdhe testDeriver [2] newKeyScheduler =
       (Inr (), \<lparr>secret_m = Some (HandshakeSecret [250, 4]), appTrafficSecret_m = None\<rparr>)"
    by (simp add: deriveHandshakeSecret_ecdhe_def test_defs label_defs)
  show ?thesis
    by (simp add: h1 h2 h3 h4)
qed

subsection \<open>Retrieval by phase\<close>

text \<open>
  Claim C6. Each phase-scoped \<^verbatim>\<open>getSecret\<close> returns
  \<open>deriveSecret(currentPhaseSecret, label, transcript)\<close>, with the label of its selector,
  when the chain slot holds the variant of its phase, and changes nothing; when the slot
  holds anything else (another variant, or nothing) it throws: no bytes are returned at
  all, and the scheduler is unchanged. The labels are those of the eight enumerators.
\<close>

theorem getSecret_phase:
  "(earlyLabel sel_e = Inr l_e \<and> secret_m s = Some (EarlySecret x) \<longrightarrow>
      getSecret_Early d sel_e t s = (Inr (deriveSecret d x l_e t), s))
   \<and> ((\<forall>x. secret_m s \<noteq> Some (EarlySecret x)) \<longrightarrow>
      (\<exists>e. getSecret_Early d sel_e t s = (Inl e, s)))
   \<and> (handshakeLabel sel_h = Inr l_h \<and> secret_m s = Some (HandshakeSecret x) \<longrightarrow>
      getSecret_Handshake d sel_h t s = (Inr (deriveSecret d x l_h t), s))
   \<and> ((\<forall>x. secret_m s \<noteq> Some (HandshakeSecret x)) \<longrightarrow>
      (\<exists>e. getSecret_Handshake d sel_h t s = (Inl e, s)))
   \<and> (masterLabel sel_m = Inr l_m \<and> secret_m s = Some (MasterSecret x) \<longrightarrow>
      getSecret_Master d sel_m t s = (Inr (deriveSecret d x l_m t), s))
   \<and> ((\<forall>x. secret_m s \<noteq> Some (MasterSecret x)) \<longrightarrow>
      (\<exists>e. getSecret_Master d sel_m t s = (Inl e, s)))
   \<and> earlyLabel ExternalPskBinder = Inr ''ext binder''
   \<and> earlyLabel ResumptionPskBinder = Inr ''res binder''
   \<and> earlyLabel ClientEarlyTraffic = Inr ''c e traffic''
   \<and> earlyLabel EarlyExporter = Inr ''e exp master''
   \<and> handshakeLabel ClientHandshakeTraffic = Inr ''c hs traffic''
   \<and> handshakeLabel ServerHandshakeTraffic = Inr ''s hs traffic''
   \<and> masterLabel ExporterMaster = Inr ''exp master''
   \<and> masterLabel ResumptionMaster = Inr ''res master''"
proof -
  have labels:
    "earlyLabel ExternalPskBinder = Inr ''ext binder''
     \<and> earlyLabel ResumptionPskBinder = Inr ''res binder''
     \<and> earlyLabel ClientEarlyTraffic = Inr ''c e traffic''
     \<and> earlyLabel EarlyExporter = Inr ''e exp master''
     \<and> handshakeLabel ClientHandshakeTraffic = Inr ''c hs traffic''
     \<and> handshakeLabel ServerHandshakeTraffic = Inr ''s hs traffic''
     \<and> masterLabel ExporterMaster = Inr ''exp master''
     \<and> masterLabel ResumptionMaster = Inr ''res master''"
    by (simp add: label_defs)
  have phases:
    "(earlyLabel sel_e = Inr l_e \<and> secret_m s = Some (EarlySecret x) \<longrightarrow>
        getSecret_Early d sel_e t s = (Inr (deriveSecret d x l_e t), s))
     \<and> ((\<forall>x. secret_m s \<noteq> Some (EarlySecret x)) \<longrightarrow>
        (\<exists>e. getSecret_Early d sel_e t s = (Inl e, s)))
     \<and> (handshakeLabel sel_h = Inr l_h \<and> secret_m s = Some (HandshakeSecret x) \<longrightarrow>
        getSecret_Handshake d sel_h t s = (Inr (deriveSecret d x l_h t), s))
     \<and> ((\<forall>x. secret_m s \<noteq> Some (HandshakeSecret x)) \<longrightarrow>
        (\<exists>e. getSecret_Handshake d sel_h t s = (Inl e, s)))
     \<and> (masterLabel sel_m = Inr l_m \<and> secret_m s = Some (MasterSecret x) \<longrightarrow>
        getSecret_Master d sel_m t s = (Inr (deriveSecret d x l_m t), s))
     \<and> ((\<forall>x. secret_m s \<noteq> Some (MasterSecret x)) \<longrightarrow>
        (\<exists>e. getSecret_Master d sel_m t s = (Inl e, s)))"
  proof (cases "secret_m s")
    case None
    then show ?thesis
      by (simp add: getSecret_Early_def getSecret_Handshake_def getSecret_Master_def
            split: sum.split)
  next
    case (Some v)
    then show ?thesis
      by (cases v)
         (simp_all add: getSecret_Early_def getSecret_Handshake_def getSecret_Master_def
            split: sum.split)
  qed
  from phases labels show ?thesis
    by (simp only: simp_thms)
qed

theorem getSecret_phase_witness:
  "getSecret_Early testDeriver ClientEarlyTraffic [4] earlyState =
     (Inr (deriveSecret testDeriver [1, 3] ''c e traffic'' [4]), earlyState)
   \<and> getSecret_Handshake testDeriver ServerHandshakeTraffic [4] handshakeState =
     (Inr (deriveSecret testDeriver [251, 4] ''s hs traffic'' [4]), handshakeState)
   \<and> getSecret_Master testDeriver ExporterMaster [4] masterState =
     (Inr (deriveSecret testDeriver [246, 2] ''exp master'' [4]), masterState)
   \<and> (\<exists>e. getSecret_Early testDeriver ClientEarlyTraffic [4] handshakeState =
            (Inl e, handshakeState))
   \<and> (\<exists>e. getSecret_Handshake testDeriver ServerHandshakeTraffic [4] masterState =
            (Inl e, masterState))
   \<and> (\<exists>e. getSecret_Master testDeriver ExporterMaster [4] earlyState = (Inl e, earlyState))"
  using getSecret_phase [where s = earlyState and d = testDeriver and t = "[4]"
          and sel_e = ClientEarlyTraffic and l_e = "''c e traffic''" and x = "[1, 3]"
          and sel_m = ExporterMaster]
        getSecret_phase [where s = handshakeState and d = testDeriver and t = "[4]"
          and sel_h = ServerHandshakeTraffic and l_h = "''s hs traffic''" and x = "[251, 4]"
          and sel_e = ClientEarlyTraffic]
        getSecret_phase [where s = masterState and d = testDeriver and t = "[4]"
          and sel_m = ExporterMaster and l_m = "''exp master''" and x = "[246, 2]"
          and sel_h = ServerHandshakeTraffic]
  by (simp add: sample_defs label_defs)

subsection \<open>Key updates\<close>

text \<open>
  Claim C8. \<^verbatim>\<open>serverKeyUpdate\<close> writes the server half of the application traffic slot
  only: the chain slot, the client secret and the client generation are what they were,
  whether the call returns or throws; and \<^verbatim>\<open>clientKeyUpdate\<close> leaves the chain slot,
  the server secret and the server generation alone. Right after
  \<^verbatim>\<open>deriveAppTrafficSecrets\<close> has returned, \<^verbatim>\<open>serverKeyUpdate\<close> returns 1 and leaves the
  generations at client 0, server 1 and the client secret as derived;
  \<^verbatim>\<open>clientKeyUpdate\<close> there leaves them at client 1, server 0.
\<close>

theorem key_update_frame:
  "secret_m (snd (serverKeyUpdate d s)) = secret_m s
   \<and> map_option client (appTrafficSecret_m (snd (serverKeyUpdate d s))) =
       map_option client (appTrafficSecret_m s)
   \<and> map_option clientGeneration (appTrafficSecret_m (snd (serverKeyUpdate d s))) =
       map_option clientGeneration (appTrafficSecret_m s)
   \<and> secret_m (snd (clientKeyUpdate d s)) = secret_m s
   \<and> map_option server (appTrafficSecret_m (snd (clientKeyUpdate d s))) =
       map_option server (appTrafficSecret_m s)
   \<and> map_option serverGeneration (appTrafficSecret_m (snd (clientKeyUpdate d s))) =
       map_option serverGeneration (appTrafficSecret_m s)
   \<and> (secret_m s = Some (MasterSecret m) \<longrightarrow>
        fst (serverKeyUpdate d (snd (deriveAppTrafficSecrets d t s))) = Inr 1
        \<and> generations (snd (serverKeyUpdate d (snd (deriveAppTrafficSecrets d t s)))) =
            Some (0, 1)
        \<and> map_option client
             (appTrafficSecret_m (snd (serverKeyUpdate d (snd (deriveAppTrafficSecrets d t s))))) =
            Some (deriveSecret d m ''c ap traffic'' t)
        \<and> fst (clientKeyUpdate d (snd (deriveAppTrafficSecrets d t s))) = Inr 1
        \<and> generations (snd (clientKeyUpdate d (snd (deriveAppTrafficSecrets d t s)))) =
            Some (1, 0)
        \<and> map_option server
             (appTrafficSecret_m (snd (clientKeyUpdate d (snd (deriveAppTrafficSecrets d t s))))) =
            Some (deriveSecret d m ''s ap traffic'' t))"
proof -
  have frame_server:
    "secret_m (snd (serverKeyUpdate d s)) = secret_m s
     \<and> map_option client (appTrafficSecret_m (snd (serverKeyUpdate d s))) =
         map_option client (appTrafficSecret_m s)
     \<and> map_option clientGeneration (appTrafficSecret_m (snd (serverKeyUpdate d s))) =
         map_option clientGeneration (appTrafficSecret_m s)"
    by (cases "appTrafficSecret_m s") (simp_all add: serverKeyUpdate_def Let_def)
  have frame_client:
    "secret_m (snd (clientKeyUpdate d s)) = secret_m s
     \<and> map_option server (appTrafficSecret_m (snd (clientKeyUpdate d s))) =
         map_option server (appTrafficSecret_m s)
     \<and> map_option serverGeneration (appTrafficSecret_m (snd (clientKeyUpdate d s))) =
         map_option serverGeneration (appTrafficSecret_m s)"
    by (cases "appTrafficSecret_m s") (simp_all add: clientKeyUpdate_def Let_def)
  have fresh:
    "secret_m s = Some (MasterSecret m) \<Longrightarrow>
       appTrafficSecret_m (snd (deriveAppTrafficSecrets d t s)) =
         Some \<lparr>client = deriveSecret d m ''c ap traffic'' t,
               server = deriveSecret d m ''s ap traffic'' t,
               clientGeneration = 0, serverGeneration = 0\<rparr>"
    by (simp add: deriveAppTrafficSecrets_def defaultAppTrafficSecret_def
          kClientAppTraffic_def kServerAppTraffic_def)
  have scenario:
    "secret_m s = Some (MasterSecret m) \<longrightarrow>
        fst (serverKeyUpdate d (snd (deriveAppTrafficSecrets d t s))) = Inr 1
        \<and> generations (snd (serverKeyUpdate d (snd (deriveAppTrafficSecrets d t s)))) =
            Some (0, 1)
        \<and> map_option client
             (appTrafficSecret_m (snd (serverKeyUpdate d (snd (deriveAppTrafficSecrets d t s))))) =
            Some (deriveSecret d m ''c ap traffic'' t)
        \<and> fst (clientKeyUpdate d (snd (deriveAppTrafficSecrets d t s))) = Inr 1
        \<and> generations (snd (clientKeyUpdate d (snd (deriveAppTrafficSecrets d t s)))) =
            Some (1, 0)
        \<and> map_option server
             (appTrafficSecret_m (snd (clientKeyUpdate d (snd (deriveAppTrafficSecrets d t s))))) =
            Some (deriveSecret d m ''s ap traffic'' t)"
    using fresh
    by (simp add: serverKeyUpdate_def clientKeyUpdate_def generations_def Let_def)
  from frame_server frame_client scenario show ?thesis
    by blast
qed

theorem key_update_frame_witness:
  "serverKeyUpdate testDeriver trafficState =
     (Inr 1,
      \<lparr>secret_m = Some (MasterSecret [246, 2]),
       appTrafficSecret_m =
         Some \<lparr>client = [75, 8], server = [171, 171],
               clientGeneration = 0, serverGeneration = 1\<rparr>\<rparr>)
   \<and> generations (snd (serverKeyUpdate testDeriver
         (snd (deriveAppTrafficSecrets testDeriver [5] masterState)))) = Some (0, 1)
   \<and> generations (snd (clientKeyUpdate testDeriver
         (snd (deriveAppTrafficSecrets testDeriver [5] masterState)))) = Some (1, 0)"
proof -
  have run: "serverKeyUpdate testDeriver trafficState =
     (Inr 1,
      \<lparr>secret_m = Some (MasterSecret [246, 2]),
       appTrafficSecret_m =
         Some \<lparr>client = [75, 8], server = [171, 171],
               clientGeneration = 0, serverGeneration = 1\<rparr>\<rparr>)"
    by (simp add: serverKeyUpdate_def test_defs trafficState_def label_defs)
  have hyp: "secret_m masterState = Some (MasterSecret [246, 2])"
    by (simp add: masterState_def)
  from run hyp
    key_update_frame [where s = masterState and d = testDeriver and t = "[5]"
      and m = "[246, 2]"]
  show ?thesis
    by simp
qed

subsection \<open>Keys and resumption secrets\<close>

text \<open>
  Claim C9. \<^verbatim>\<open>getTrafficKey\<close> and \<^verbatim>\<open>getResumptionSecret\<close> read and write no scheduler
  state: each returns the scheduler it was given, and its result is the same on every
  scheduler. The traffic key is \<open>expandLabel(trafficSecret, "key", empty, keyLength)\<close> with
  the iv \<open>expandLabel(trafficSecret, "iv", empty, ivLength)\<close>, the resumption secret is
  \<open>expandLabel(resumptionMasterSecret, "resumption", ticketNonce, hashLength)\<close>, and a
  second call with the same arguments returns the same bytes. (The primitive is a function
  here, so it is deterministic itself.)
\<close>

theorem key_materialization_pure:
  "getTrafficKey d trafficSecret keyLength ivLength s =
     (Inr \<lparr>key = expandLabel d trafficSecret ''key'' [] keyLength,
           iv = expandLabel d trafficSecret ''iv'' [] ivLength\<rparr>, s)
   \<and> getResumptionSecret d resumptionMasterSecret ticketNonce s =
     (Inr (expandLabel d resumptionMasterSecret ''resumption'' ticketNonce (hashLength d)), s)
   \<and> fst (getTrafficKey d trafficSecret keyLength ivLength s') =
     fst (getTrafficKey d trafficSecret keyLength ivLength s)
   \<and> fst (getResumptionSecret d resumptionMasterSecret ticketNonce s') =
     fst (getResumptionSecret d resumptionMasterSecret ticketNonce s)
   \<and> fst (getTrafficKey d trafficSecret keyLength ivLength
        (snd (getTrafficKey d trafficSecret keyLength ivLength s))) =
     fst (getTrafficKey d trafficSecret keyLength ivLength s)
   \<and> fst (getResumptionSecret d resumptionMasterSecret ticketNonce
        (snd (getResumptionSecret d resumptionMasterSecret ticketNonce s))) =
     fst (getResumptionSecret d resumptionMasterSecret ticketNonce s)"
  by (simp add: getTrafficKey_def getResumptionSecret_def kTrafficKey_def kTrafficIv_def
        kResumption_def)

subsection \<open>Clearing the master secret\<close>

text \<open>
  Claim C10. \<^verbatim>\<open>clearMasterSecret\<close> never touches the application traffic slot, and the
  key updates and \<^verbatim>\<open>getSecret(AppTrafficSecrets)\<close> never look at the chain slot: on a
  scheduler with a master secret and traffic secrets \<open>a\<close>, \<^verbatim>\<open>clearMasterSecret\<close> returns with
  \<open>a\<close> still stored and only the chain slot emptied, and on the scheduler it leaves
  \<^verbatim>\<open>clientKeyUpdate\<close> and \<^verbatim>\<open>serverKeyUpdate\<close> return the next generation and ratchet
  their secret, and \<^verbatim>\<open>getSecret\<close> returns the stored client and server secrets.
\<close>

theorem clearMasterSecret_keeps_traffic:
  "appTrafficSecret_m (snd (clearMasterSecret s)) = appTrafficSecret_m s
   \<and> (secret_m s = Some (MasterSecret m) \<and> appTrafficSecret_m s = Some a \<longrightarrow>
        clearMasterSecret s = (Inr (), s\<lparr>secret_m := None\<rparr>)
        \<and> clientKeyUpdate d (s\<lparr>secret_m := None\<rparr>) =
            (Inr (clientGeneration a + 1),
             s\<lparr>secret_m := None,
               appTrafficSecret_m := Some (a
                 \<lparr>client := expandLabel d (client a) ''traffic upd'' [] (hashLength d),
                  clientGeneration := clientGeneration a + 1\<rparr>)\<rparr>)
        \<and> serverKeyUpdate d (s\<lparr>secret_m := None\<rparr>) =
            (Inr (serverGeneration a + 1),
             s\<lparr>secret_m := None,
               appTrafficSecret_m := Some (a
                 \<lparr>server := expandLabel d (server a) ''traffic upd'' [] (hashLength d),
                  serverGeneration := serverGeneration a + 1\<rparr>)\<rparr>)
        \<and> getSecret_AppTraffic ClientAppTraffic (s\<lparr>secret_m := None\<rparr>) =
            (Inr (client a), s\<lparr>secret_m := None\<rparr>)
        \<and> getSecret_AppTraffic ServerAppTraffic (s\<lparr>secret_m := None\<rparr>) =
            (Inr (server a), s\<lparr>secret_m := None\<rparr>))"
proof -
  have keep: "appTrafficSecret_m (snd (clearMasterSecret s)) = appTrafficSecret_m s"
    by (simp add: clearMasterSecret_def split: sum.split)
  have rest:
    "secret_m s = Some (MasterSecret m) \<and> appTrafficSecret_m s = Some a \<longrightarrow>
        clearMasterSecret s = (Inr (), s\<lparr>secret_m := None\<rparr>)
        \<and> clientKeyUpdate d (s\<lparr>secret_m := None\<rparr>) =
            (Inr (clientGeneration a + 1),
             s\<lparr>secret_m := None,
               appTrafficSecret_m := Some (a
                 \<lparr>client := expandLabel d (client a) ''traffic upd'' [] (hashLength d),
                  clientGeneration := clientGeneration a + 1\<rparr>)\<rparr>)
        \<and> serverKeyUpdate d (s\<lparr>secret_m := None\<rparr>) =
            (Inr (serverGeneration a + 1),
             s\<lparr>secret_m := None,
               appTrafficSecret_m := Some (a
                 \<lparr>server := expandLabel d (server a) ''traffic upd'' [] (hashLength d),
                  serverGeneration := serverGeneration a + 1\<rparr>)\<rparr>)
        \<and> getSecret_AppTraffic ClientAppTraffic (s\<lparr>secret_m := None\<rparr>) =
            (Inr (client a), s\<lparr>secret_m := None\<rparr>)
        \<and> getSecret_AppTraffic ServerAppTraffic (s\<lparr>secret_m := None\<rparr>) =
            (Inr (server a), s\<lparr>secret_m := None\<rparr>)"
    by (simp add: clearMasterSecret_def clientKeyUpdate_def serverKeyUpdate_def
          getSecret_AppTraffic_def kTrafficKeyUpdate_def Let_def)
  from keep rest show ?thesis
    by blast
qed

theorem clearMasterSecret_keeps_traffic_witness:
  "clearMasterSecret trafficState =
     (Inr (),
      \<lparr>secret_m = None,
       appTrafficSecret_m =
         Some \<lparr>client = [75, 8], server = [91, 8],
               clientGeneration = 0, serverGeneration = 0\<rparr>\<rparr>)
   \<and> clientKeyUpdate testDeriver (snd (clearMasterSecret trafficState)) =
     (Inr 1,
      \<lparr>secret_m = None,
       appTrafficSecret_m =
         Some \<lparr>client = [155, 155], server = [91, 8],
               clientGeneration = 1, serverGeneration = 0\<rparr>\<rparr>)
   \<and> serverKeyUpdate testDeriver (snd (clearMasterSecret trafficState)) =
     (Inr 1,
      \<lparr>secret_m = None,
       appTrafficSecret_m =
         Some \<lparr>client = [75, 8], server = [171, 171],
               clientGeneration = 0, serverGeneration = 1\<rparr>\<rparr>)
   \<and> fst (getSecret_AppTraffic ClientAppTraffic (snd (clearMasterSecret trafficState))) =
     Inr [75, 8]
   \<and> fst (getSecret_AppTraffic ServerAppTraffic (snd (clearMasterSecret trafficState))) =
     Inr [91, 8]"
proof -
  let ?a = "\<lparr>client = [75, 8], server = [91, 8],
             clientGeneration = 0, serverGeneration = 0 :: 32 word\<rparr>"
  have hyp: "secret_m trafficState = Some (MasterSecret [246, 2])
             \<and> appTrafficSecret_m trafficState = Some ?a"
    by (simp add: trafficState_def)
  have vals:
    "expandLabel testDeriver [75, 8] ''traffic upd'' [] (hashLength testDeriver) = [155, 155]"
    "expandLabel testDeriver [91, 8] ''traffic upd'' [] (hashLength testDeriver) = [171, 171]"
    by (simp_all add: test_defs)
  from hyp vals
    clearMasterSecret_keeps_traffic [where s = trafficState and d = testDeriver
      and m = "[246, 2]" and a = ?a]
  show ?thesis
    by (simp add: trafficState_def)
qed

subsection \<open>Generations\<close>

lemma ratchet_Suc:
  "ratchet d (Suc n) x = ratchet d n (expandLabel d x kTrafficKeyUpdate [] (hashLength d))"
  by (simp only: ratchet_def funpow_Suc_right o_apply)

lemma restore_traffic:
  "appTrafficSecret_m s = Some a \<Longrightarrow> s\<lparr>appTrafficSecret_m := Some a\<rparr> = s"
  by (cases s) simp

lemma upt_shift: "[0..<Suc n] = 0 # map Suc [0..<n]"
  by (simp add: upt_conv_Cons map_Suc_upt del: upt_Suc)

lemma repeat_clientKeyUpdate:
  "appTrafficSecret_m s = Some a \<Longrightarrow>
   repeatCall (clientKeyUpdate d) n s =
     (map (\<lambda>i. Inr (clientGeneration a + 1 + of_nat i)) [0..<n],
      s\<lparr>appTrafficSecret_m := Some (a\<lparr>client := ratchet d n (client a),
            clientGeneration := clientGeneration a + of_nat n\<rparr>)\<rparr>)"
proof (induction n arbitrary: s a)
  case 0
  then show ?case
    by (simp add: ratchet_def restore_traffic)
next
  case (Suc n)
  let ?a1 = "a\<lparr>client := expandLabel d (client a) kTrafficKeyUpdate [] (hashLength d),
                clientGeneration := clientGeneration a + 1\<rparr>"
  let ?s1 = "s\<lparr>appTrafficSecret_m := Some ?a1\<rparr>"
  have step: "clientKeyUpdate d s = (Inr (clientGeneration a + 1), ?s1)"
    using Suc.prems by (simp add: clientKeyUpdate_def Let_def)
  have slot: "appTrafficSecret_m ?s1 = Some ?a1"
    by simp
  have "repeatCall (clientKeyUpdate d) (Suc n) s =
          (Inr (clientGeneration a + 1) # fst (repeatCall (clientKeyUpdate d) n ?s1),
           snd (repeatCall (clientKeyUpdate d) n ?s1))"
    by (simp add: step split: prod.split)
  then show ?case
    by (simp add: Suc.IH [OF slot] upt_shift ratchet_Suc add.assoc o_def del: upt_Suc)
qed

lemma repeat_serverKeyUpdate:
  "appTrafficSecret_m s = Some a \<Longrightarrow>
   repeatCall (serverKeyUpdate d) n s =
     (map (\<lambda>i. Inr (serverGeneration a + 1 + of_nat i)) [0..<n],
      s\<lparr>appTrafficSecret_m := Some (a\<lparr>server := ratchet d n (server a),
            serverGeneration := serverGeneration a + of_nat n\<rparr>)\<rparr>)"
proof (induction n arbitrary: s a)
  case 0
  then show ?case
    by (simp add: ratchet_def restore_traffic)
next
  case (Suc n)
  let ?a1 = "a\<lparr>server := expandLabel d (server a) kTrafficKeyUpdate [] (hashLength d),
                serverGeneration := serverGeneration a + 1\<rparr>"
  let ?s1 = "s\<lparr>appTrafficSecret_m := Some ?a1\<rparr>"
  have step: "serverKeyUpdate d s = (Inr (serverGeneration a + 1), ?s1)"
    using Suc.prems by (simp add: serverKeyUpdate_def Let_def)
  have slot: "appTrafficSecret_m ?s1 = Some ?a1"
    by simp
  have "repeatCall (serverKeyUpdate d) (Suc n) s =
          (Inr (serverGeneration a + 1) # fst (repeatCall (serverKeyUpdate d) n ?s1),
           snd (repeatCall (serverKeyUpdate d) n ?s1))"
    by (simp add: step split: prod.split)
  then show ?case
    by (simp add: Suc.IH [OF slot] upt_shift ratchet_Suc add.assoc o_def del: upt_Suc)
qed

lemma unat_generation: "unat (1 + of_nat i :: 32 word) = Suc i mod 2 ^ 32"
proof -
  have "(1 + of_nat i :: 32 word) = of_nat (Suc i)"
    by simp
  then show ?thesis
    by (simp only: unat_of_nat) simp
qed

lemma generations_read:
  "map (map_sum id unat) (map (\<lambda>i. Inr (0 + 1 + of_nat i :: 32 word) :: error + 32 word) [0..<n]) =
     map (\<lambda>i. Inr (i mod 2 ^ 32)) [1..<Suc n]"
proof -
  have "[1..<Suc n] = map Suc [0..<n]"
    by (simp add: map_Suc_upt del: upt_Suc)
  then show ?thesis
    by (simp add: o_def unat_generation del: upt_Suc)
qed

lemma generations_below_wrap:
  "n < 2 ^ 32 \<Longrightarrow>
     map (\<lambda>i. Inr (i mod 2 ^ 32) :: error + nat) [1..<Suc n] = map Inr [1..<Suc n]"
  by (rule map_cong) (simp_all del: upt_Suc)

text \<open>One key update, and \<open>n\<close> in a row, on a filled application traffic slot.\<close>

lemma key_updates_from_slot:
  "appTrafficSecret_m s = Some a \<longrightarrow>
     clientKeyUpdate d s =
       (Inr (clientGeneration a + 1),
        s\<lparr>appTrafficSecret_m := Some (a
            \<lparr>client := expandLabel d (client a) ''traffic upd'' [] (hashLength d),
             clientGeneration := clientGeneration a + 1\<rparr>)\<rparr>)
     \<and> serverKeyUpdate d s =
       (Inr (serverGeneration a + 1),
        s\<lparr>appTrafficSecret_m := Some (a
            \<lparr>server := expandLabel d (server a) ''traffic upd'' [] (hashLength d),
             serverGeneration := serverGeneration a + 1\<rparr>)\<rparr>)
     \<and> map_option client (appTrafficSecret_m (snd (repeatCall (clientKeyUpdate d) n s))) =
         Some (ratchet d n (client a))
     \<and> map_option server (appTrafficSecret_m (snd (repeatCall (serverKeyUpdate d) n s))) =
         Some (ratchet d n (server a))
     \<and> (clientGeneration a = 0 \<longrightarrow>
          map (map_sum id unat) (fst (repeatCall (clientKeyUpdate d) n s)) =
            map (\<lambda>i. Inr (i mod 2 ^ 32)) [1..<Suc n])
     \<and> (serverGeneration a = 0 \<longrightarrow>
          map (map_sum id unat) (fst (repeatCall (serverKeyUpdate d) n s)) =
            map (\<lambda>i. Inr (i mod 2 ^ 32)) [1..<Suc n])
     \<and> (clientGeneration a = 0 \<and> n < 2 ^ 32 \<longrightarrow>
          map (map_sum id unat) (fst (repeatCall (clientKeyUpdate d) n s)) =
            map Inr [1..<Suc n])
     \<and> (serverGeneration a = 0 \<and> n < 2 ^ 32 \<longrightarrow>
          map (map_sum id unat) (fst (repeatCall (serverKeyUpdate d) n s)) =
            map Inr [1..<Suc n])"
proof
  assume slot: "appTrafficSecret_m s = Some a"
  have one_client:
    "clientKeyUpdate d s =
       (Inr (clientGeneration a + 1),
        s\<lparr>appTrafficSecret_m := Some (a
            \<lparr>client := expandLabel d (client a) ''traffic upd'' [] (hashLength d),
             clientGeneration := clientGeneration a + 1\<rparr>)\<rparr>)"
    using slot by (simp add: clientKeyUpdate_def kTrafficKeyUpdate_def Let_def)
  have one_server:
    "serverKeyUpdate d s =
       (Inr (serverGeneration a + 1),
        s\<lparr>appTrafficSecret_m := Some (a
            \<lparr>server := expandLabel d (server a) ''traffic upd'' [] (hashLength d),
             serverGeneration := serverGeneration a + 1\<rparr>)\<rparr>)"
    using slot by (simp add: serverKeyUpdate_def kTrafficKeyUpdate_def Let_def)
  note many_client = repeat_clientKeyUpdate [OF slot, of d n]
  note many_server = repeat_serverKeyUpdate [OF slot, of d n]
  have secret_client:
    "map_option client (appTrafficSecret_m (snd (repeatCall (clientKeyUpdate d) n s))) =
       Some (ratchet d n (client a))"
    by (simp add: many_client)
  have secret_server:
    "map_option server (appTrafficSecret_m (snd (repeatCall (serverKeyUpdate d) n s))) =
       Some (ratchet d n (server a))"
    by (simp add: many_server)
  have wrap_client:
    "clientGeneration a = 0 \<longrightarrow>
       map (map_sum id unat) (fst (repeatCall (clientKeyUpdate d) n s)) =
         map (\<lambda>i. Inr (i mod 2 ^ 32)) [1..<Suc n]"
    using generations_read [of n] by (simp add: many_client del: upt_Suc)
  have wrap_server:
    "serverGeneration a = 0 \<longrightarrow>
       map (map_sum id unat) (fst (repeatCall (serverKeyUpdate d) n s)) =
         map (\<lambda>i. Inr (i mod 2 ^ 32)) [1..<Suc n]"
    using generations_read [of n] by (simp add: many_server del: upt_Suc)
  have below_client:
    "clientGeneration a = 0 \<and> n < 2 ^ 32 \<longrightarrow>
       map (map_sum id unat) (fst (repeatCall (clientKeyUpdate d) n s)) = map Inr [1..<Suc n]"
    using wrap_client generations_below_wrap [of n] by simp
  have below_server:
    "serverGeneration a = 0 \<and> n < 2 ^ 32 \<longrightarrow>
       map (map_sum id unat) (fst (repeatCall (serverKeyUpdate d) n s)) = map Inr [1..<Suc n]"
    using wrap_server generations_below_wrap [of n] by simp
  from one_client one_server secret_client secret_server wrap_client wrap_server
    below_client below_server
  show "clientKeyUpdate d s =
       (Inr (clientGeneration a + 1),
        s\<lparr>appTrafficSecret_m := Some (a
            \<lparr>client := expandLabel d (client a) ''traffic upd'' [] (hashLength d),
             clientGeneration := clientGeneration a + 1\<rparr>)\<rparr>)
     \<and> serverKeyUpdate d s =
       (Inr (serverGeneration a + 1),
        s\<lparr>appTrafficSecret_m := Some (a
            \<lparr>server := expandLabel d (server a) ''traffic upd'' [] (hashLength d),
             serverGeneration := serverGeneration a + 1\<rparr>)\<rparr>)
     \<and> map_option client (appTrafficSecret_m (snd (repeatCall (clientKeyUpdate d) n s))) =
         Some (ratchet d n (client a))
     \<and> map_option server (appTrafficSecret_m (snd (repeatCall (serverKeyUpdate d) n s))) =
         Some (ratchet d n (server a))
     \<and> (clientGeneration a = 0 \<longrightarrow>
          map (map_sum id unat) (fst (repeatCall (clientKeyUpdate d) n s)) =
            map (\<lambda>i. Inr (i mod 2 ^ 32)) [1..<Suc n])
     \<and> (serverGeneration a = 0 \<longrightarrow>
          map (map_sum id unat) (fst (repeatCall (serverKeyUpdate d) n s)) =
            map (\<lambda>i. Inr (i mod 2 ^ 32)) [1..<Suc n])
     \<and> (clientGeneration a = 0 \<and> n < 2 ^ 32 \<longrightarrow>
          map (map_sum id unat) (fst (repeatCall (clientKeyUpdate d) n s)) =
            map Inr [1..<Suc n])
     \<and> (serverGeneration a = 0 \<and> n < 2 ^ 32 \<longrightarrow>
          map (map_sum id unat) (fst (repeatCall (serverKeyUpdate d) n s)) =
            map Inr [1..<Suc n])"
    by blast
qed

text \<open>
  Claim C4, as the code has it. On a scheduler with traffic secrets \<open>a\<close>,
  \<^verbatim>\<open>clientKeyUpdate\<close> stores \<open>expandLabel(previousSecret, "traffic upd", empty, hashLength)\<close>
  as the client secret and returns the incremented client generation, and
  \<^verbatim>\<open>serverKeyUpdate\<close> does the same on the server side. Starting from generation 0 (as
  \<^verbatim>\<open>deriveAppTrafficSecrets\<close> leaves it), the \<open>i\<close>-th of \<open>n\<close> calls in a row returns
  \<open>i mod 2^32\<close>, the counter being a \<^verbatim>\<open>uint32_t\<close>: for \<open>n < 2^32\<close> the calls return
  \<open>1, 2, \<dots>, n\<close> in order, in particular on the scheduler that a successful
  \<^verbatim>\<open>deriveAppTrafficSecrets\<close> has just left. After the \<open>n\<close> calls the stored secret is
  the \<open>n\<close>-fold ratchet of the first one.
\<close>

theorem key_update_generations:
  "(appTrafficSecret_m s = Some a \<longrightarrow>
      clientKeyUpdate d s =
        (Inr (clientGeneration a + 1),
         s\<lparr>appTrafficSecret_m := Some (a
             \<lparr>client := expandLabel d (client a) ''traffic upd'' [] (hashLength d),
              clientGeneration := clientGeneration a + 1\<rparr>)\<rparr>)
      \<and> serverKeyUpdate d s =
        (Inr (serverGeneration a + 1),
         s\<lparr>appTrafficSecret_m := Some (a
             \<lparr>server := expandLabel d (server a) ''traffic upd'' [] (hashLength d),
              serverGeneration := serverGeneration a + 1\<rparr>)\<rparr>)
      \<and> map_option client (appTrafficSecret_m (snd (repeatCall (clientKeyUpdate d) n s))) =
          Some (ratchet d n (client a))
      \<and> map_option server (appTrafficSecret_m (snd (repeatCall (serverKeyUpdate d) n s))) =
          Some (ratchet d n (server a))
      \<and> (clientGeneration a = 0 \<longrightarrow>
           map (map_sum id unat) (fst (repeatCall (clientKeyUpdate d) n s)) =
             map (\<lambda>i. Inr (i mod 2 ^ 32)) [1..<Suc n])
      \<and> (serverGeneration a = 0 \<longrightarrow>
           map (map_sum id unat) (fst (repeatCall (serverKeyUpdate d) n s)) =
             map (\<lambda>i. Inr (i mod 2 ^ 32)) [1..<Suc n])
      \<and> (clientGeneration a = 0 \<and> n < 2 ^ 32 \<longrightarrow>
           map (map_sum id unat) (fst (repeatCall (clientKeyUpdate d) n s)) =
             map Inr [1..<Suc n])
      \<and> (serverGeneration a = 0 \<and> n < 2 ^ 32 \<longrightarrow>
           map (map_sum id unat) (fst (repeatCall (serverKeyUpdate d) n s)) =
             map Inr [1..<Suc n]))
   \<and> (secret_m s0 = Some (MasterSecret m) \<and> n < 2 ^ 32 \<longrightarrow>
        map (map_sum id unat)
          (fst (repeatCall (clientKeyUpdate d) n (snd (deriveAppTrafficSecrets d t s0)))) =
          map Inr [1..<Suc n]
        \<and> map (map_sum id unat)
          (fst (repeatCall (serverKeyUpdate d) n (snd (deriveAppTrafficSecrets d t s0)))) =
          map Inr [1..<Suc n])"
proof -
  let ?a0 = "\<lparr>client = deriveSecret d m kClientAppTraffic t,
              server = deriveSecret d m kServerAppTraffic t,
              clientGeneration = 0, serverGeneration = 0 :: 32 word\<rparr>"
  have derived:
    "secret_m s0 = Some (MasterSecret m) \<Longrightarrow>
       appTrafficSecret_m (snd (deriveAppTrafficSecrets d t s0)) = Some ?a0"
    by (simp add: deriveAppTrafficSecrets_def defaultAppTrafficSecret_def)
  have after_derivation:
    "secret_m s0 = Some (MasterSecret m) \<and> n < 2 ^ 32 \<longrightarrow>
        map (map_sum id unat)
          (fst (repeatCall (clientKeyUpdate d) n (snd (deriveAppTrafficSecrets d t s0)))) =
          map Inr [1..<Suc n]
        \<and> map (map_sum id unat)
          (fst (repeatCall (serverKeyUpdate d) n (snd (deriveAppTrafficSecrets d t s0)))) =
          map Inr [1..<Suc n]"
    using derived
      key_updates_from_slot [where s = "snd (deriveAppTrafficSecrets d t s0)" and a = ?a0
        and d = d and n = n]
    by (simp del: upt_Suc)
  from key_updates_from_slot [where s = s and a = a and d = d and n = n] after_derivation
  show ?thesis
    by (simp only: simp_thms)
qed

theorem key_update_generations_witness:
  "map (map_sum id unat)
     (fst (repeatCall (clientKeyUpdate testDeriver) 3
        (snd (deriveAppTrafficSecrets testDeriver [5] masterState)))) = [Inr 1, Inr 2, Inr 3]
   \<and> map (map_sum id unat) (fst (repeatCall (clientKeyUpdate testDeriver) 3 trafficState)) =
     [Inr 1, Inr 2, Inr 3]
   \<and> map (map_sum id unat) (fst (repeatCall (serverKeyUpdate testDeriver) 3 trafficState)) =
     [Inr 1, Inr 2, Inr 3]
   \<and> clientKeyUpdate testDeriver trafficState =
     (Inr 1,
      \<lparr>secret_m = Some (MasterSecret [246, 2]),
       appTrafficSecret_m =
         Some \<lparr>client = [155, 155], server = [91, 8],
               clientGeneration = 1, serverGeneration = 0\<rparr>\<rparr>)"
proof -
  let ?a = "\<lparr>client = [75, 8], server = [91, 8],
             clientGeneration = 0, serverGeneration = 0 :: 32 word\<rparr>"
  have hyp: "appTrafficSecret_m trafficState = Some ?a"
    by (simp add: trafficState_def)
  have zero: "clientGeneration ?a = 0" "serverGeneration ?a = 0" "(3::nat) < 2 ^ 32"
    by simp_all
  have val:
    "expandLabel testDeriver [75, 8] ''traffic upd'' [] (hashLength testDeriver) = [155, 155]"
    by (simp add: test_defs)
  have upt: "[1..<Suc 3] = [1, 2, 3]"
    by (simp add: upt_conv_Cons)
  have h0: "secret_m masterState = Some (MasterSecret [246, 2])"
    by (simp add: masterState_def)
  from hyp zero val upt h0 sample_traffic
    key_update_generations [where s = trafficState and d = testDeriver and a = ?a
      and n = 3 and ?s0.0 = masterState and m = "[246, 2]" and t = "[5]"]
  show ?thesis
    by (simp add: trafficState_def del: upt_Suc)
qed

text \<open>
  The claim as the spec words it, for every \<open>n\<close>, fails where the counter wraps: starting
  from the scheduler that \<^verbatim>\<open>deriveAppTrafficSecrets\<close> leaves, the \<open>2^32\<close>-th call of
  \<^verbatim>\<open>clientKeyUpdate\<close> returns 0.
\<close>

theorem key_update_generation_wraps:
  "length (fst (repeatCall (clientKeyUpdate testDeriver) (2 ^ 32) trafficState)) = 2 ^ 32
   \<and> fst (repeatCall (clientKeyUpdate testDeriver) (2 ^ 32) trafficState) ! (2 ^ 32 - 1) =
       Inr 0"
proof -
  let ?a = "\<lparr>client = [75, 8], server = [91, 8],
             clientGeneration = 0, serverGeneration = 0 :: 32 word\<rparr>"
  have slot: "appTrafficSecret_m trafficState = Some ?a"
    by (simp add: trafficState_def)
  have nth: "fst (repeatCall (clientKeyUpdate testDeriver) n trafficState) ! (n - 1) =
               Inr (of_nat n)" if "0 < n" for n
  proof -
    have "1 + of_nat (n - 1) = (of_nat n :: 32 word)"
      using that by (cases n) simp_all
    then show ?thesis
      using that by (simp add: repeat_clientKeyUpdate [OF slot] del: upt_Suc)
  qed
  have len: "length (fst (repeatCall (clientKeyUpdate testDeriver) n trafficState)) = n" for n
    by (simp add: repeat_clientKeyUpdate [OF slot])
  have zero: "(of_nat (2 ^ 32) :: 32 word) = 0"
    by simp
  show ?thesis
    using nth [of "2 ^ 32"] len [of "2 ^ 32"] zero by simp
qed











end
